theory Spec2Isabelle
  imports Complex_Main
begin

section \<open>Errors\<close>

text \<open>
  The TypeScript sources raise a plain \<open>Error\<close> carrying a message. Every \<open>throw\<close> site
  becomes one constructor, named as the specification's error taxonomy names it:
  \<^item> \<open>InvalidAmount\<close>: Money constructor, amount below zero;
  \<^item> \<open>InvalidCurrency\<close>: Money constructor, currency code empty or not three characters;
  \<^item> \<open>CurrencyMismatch\<close>: \<open>Money.assertSameCurrency\<close>;
  \<^item> \<open>NegativeResult\<close>: \<open>Money.subtract\<close>;
  \<^item> \<open>InvalidFactor\<close>: \<open>Money.multiply\<close>, multiplier below zero;
  \<^item> \<open>InvalidQuantity\<close>: \<open>OrderItem\<close> constructor and \<open>OrderItem.changeQuantity\<close>;
  \<^item> \<open>InvalidState\<close>: the status guards of \<open>Order\<close> (\<open>ensureCanModify\<close>, \<open>place\<close>,
    \<open>markAsPaid\<close>, \<open>ship\<close>, \<open>deliver\<close>, \<open>cancel\<close>);
  \<^item> \<open>EmptyOrder\<close>: \<open>Order.place\<close> with no line;
  \<^item> \<open>ItemNotFound\<close>: \<open>Order.removeItem\<close> and \<open>Order.changeItemQuantity\<close>;
  \<^item> \<open>MaxItemsExceeded\<close>: the line cap of \<open>Order.addItem\<close>;
  \<^item> \<open>EmptyId\<close>: the constructors of the identifier value objects.
\<close>

datatype error =
    InvalidAmount
  | InvalidCurrency
  | CurrencyMismatch
  | NegativeResult
  | InvalidFactor
  | InvalidQuantity
  | InvalidState
  | EmptyOrder
  | ItemNotFound
  | MaxItemsExceeded
  | EmptyId

text \<open>
  A \<open>void\<close> method that mutates its receiver and may throw returns the outcome together
  with the receiver as the call leaves it: what was assigned before a \<open>throw\<close> stays
  assigned.
\<close>

datatype outcome = Done | Thrown error

section \<open>Identifier value objects\<close>

text \<open>
  \<open>OrderId\<close>, \<open>CustomerId\<close> and \<open>ProductId\<close> wrap a string; \<open>equals\<close> compares the
  wrapped strings and \<open>toString\<close> returns it. The constructor rejects a string that is
  empty or blank (\<open>!value || value.trim().length === 0\<close>).
\<close>

datatype OrderId = OrderId (OrderId_value: string)
datatype CustomerId = CustomerId (CustomerId_value: string)
datatype ProductId = ProductId (ProductId_value: string)

definition isWhitespace :: "char \<Rightarrow> bool" where
  "isWhitespace c = (let n = (of_char c :: nat) in (9 \<le> n \<and> n \<le> 13) \<or> n = 32 \<or> n = 160)"

definition isBlank :: "string \<Rightarrow> bool" where
  "isBlank v = (v = [] \<or> list_all isWhitespace v)"

definition OrderId_new :: "string \<Rightarrow> error + OrderId" where
  "OrderId_new v = (if isBlank v then Inl EmptyId else Inr (OrderId v))"

definition CustomerId_new :: "string \<Rightarrow> error + CustomerId" where
  "CustomerId_new v = (if isBlank v then Inl EmptyId else Inr (CustomerId v))"

definition ProductId_new :: "string \<Rightarrow> error + ProductId" where
  "ProductId_new v = (if isBlank v then Inl EmptyId else Inr (ProductId v))"

definition OrderId_equals :: "OrderId \<Rightarrow> OrderId \<Rightarrow> bool" where
  "OrderId_equals this other = (OrderId_value this = OrderId_value other)"

definition OrderId_toString :: "OrderId \<Rightarrow> string" where
  "OrderId_toString this = OrderId_value this"

definition ProductId_equals :: "ProductId \<Rightarrow> ProductId \<Rightarrow> bool" where
  "ProductId_equals this other = (ProductId_value this = ProductId_value other)"

section \<open>Money\<close>

text \<open>
  A JavaScript \<open>number\<close> is modelled as a real number: amounts, quantities and
  multipliers may be fractional, comparisons and arithmetic are exact, and \<open>Math.floor\<close>
  is the floor. The rounding of double-precision arithmetic (beyond 2^53) and the values
  \<open>NaN\<close> and \<open>Infinity\<close> are left out. The currency code is a string; \<open>toUpperCase\<close>
  maps the ASCII lower-case letters.
\<close>

definition Math_floor :: "real \<Rightarrow> real" where
  "Math_floor x = of_int \<lfloor>x\<rfloor>"

record money =
  amount :: real
  currency :: string

definition toUpperChar :: "char \<Rightarrow> char" where
  "toUpperChar c =
     (let n = (of_char c :: nat) in if 97 \<le> n \<and> n \<le> 122 then char_of (n - 32) else c)"

definition toUpperCase :: "string \<Rightarrow> string" where
  "toUpperCase s = map toUpperChar s"

definition Money_new :: "real \<Rightarrow> string \<Rightarrow> error + money" where
  "Money_new a c =
     (if a < 0 then Inl InvalidAmount
      else if c = [] \<or> length c \<noteq> 3 then Inl InvalidCurrency
      else Inr \<lparr>amount = a, currency = toUpperCase c\<rparr>)"

definition Money_zero :: "string \<Rightarrow> error + money" where
  "Money_zero c = Money_new 0 c"

definition Money_fromYen :: "real \<Rightarrow> error + money" where
  "Money_fromYen a = Money_new a ''JPY''"

definition assertSameCurrency :: "money \<Rightarrow> money \<Rightarrow> outcome" where
  "assertSameCurrency this other =
     (if currency this \<noteq> currency other then Thrown CurrencyMismatch else Done)"

definition Money_add :: "money \<Rightarrow> money \<Rightarrow> error + money" where
  "Money_add this other =
     (case assertSameCurrency this other of
        Thrown e \<Rightarrow> Inl e
      | Done \<Rightarrow> Money_new (amount this + amount other) (currency this))"

definition Money_subtract :: "money \<Rightarrow> money \<Rightarrow> error + money" where
  "Money_subtract this other =
     (case assertSameCurrency this other of
        Thrown e \<Rightarrow> Inl e
      | Done \<Rightarrow>
          (let result = amount this - amount other
           in if result < 0 then Inl NegativeResult else Money_new result (currency this)))"

definition Money_multiply :: "money \<Rightarrow> real \<Rightarrow> error + money" where
  "Money_multiply this multiplier =
     (if multiplier < 0 then Inl InvalidFactor
      else Money_new (Math_floor (amount this * multiplier)) (currency this))"

definition Money_equals :: "money \<Rightarrow> money \<Rightarrow> bool" where
  "Money_equals this other = (amount this = amount other \<and> currency this = currency other)"

section \<open>OrderItem\<close>

record OrderItem =
  productId :: ProductId
  quantity :: real
  unitPrice :: money

definition OrderItem_new :: "ProductId \<Rightarrow> real \<Rightarrow> money \<Rightarrow> error + OrderItem" where
  "OrderItem_new p q u =
     (if q \<le> 0 then Inl InvalidQuantity
      else Inr \<lparr>productId = p, quantity = q, unitPrice = u\<rparr>)"

definition changeQuantity :: "real \<Rightarrow> OrderItem \<Rightarrow> error + OrderItem" where
  "changeQuantity newQuantity item =
     (if newQuantity \<le> 0 then Inl InvalidQuantity else Inr (item\<lparr>quantity := newQuantity\<rparr>))"

definition getSubtotal :: "OrderItem \<Rightarrow> error + money" where
  "getSubtotal item = Money_multiply (unitPrice item) (quantity item)"

definition hasProduct :: "OrderItem \<Rightarrow> ProductId \<Rightarrow> bool" where
  "hasProduct item p = ProductId_equals (productId item) p"

definition getQuantity :: "OrderItem \<Rightarrow> real" where
  "getQuantity item = quantity item"

section \<open>Order\<close>

datatype OrderStatus = DRAFT | PLACED | PAID | SHIPPED | DELIVERED | CANCELLED

text \<open>
  \<open>placedAt\<close> is a \<open>Date\<close>; the clock \<open>new Date()\<close> reads is an argument of \<open>place\<close>.
  The field \<open>id\<close> is \<open>order_id\<close> here.
\<close>

type_synonym date = nat

record order =
  order_id :: OrderId
  customerId :: CustomerId
  items :: "OrderItem list"
  status :: OrderStatus
  totalAmount :: money
  placedAt :: "date option"

definition maxItems :: nat where
  "maxItems = 100"

definition Order_new :: "OrderId \<Rightarrow> CustomerId \<Rightarrow> error + order" where
  "Order_new i c =
     (case Money_zero ''JPY'' of
        Inl e \<Rightarrow> Inl e
      | Inr z \<Rightarrow> Inr \<lparr>order_id = i, customerId = c, items = [], status = DRAFT,
                     totalAmount = z, placedAt = None\<rparr>)"

text \<open>
  \<open>Array.prototype.findIndex\<close>: the index of the first element the predicate accepts
  (\<open>None\<close> for the source's \<open>-1\<close>). \<open>Array.prototype.find\<close> returns the element at that
  index by reference, so a change made through it is a change of the array at that index.
\<close>

fun findIndex :: "('a \<Rightarrow> bool) \<Rightarrow> 'a list \<Rightarrow> nat option" where
  "findIndex P [] = None"
| "findIndex P (x # xs) =
     (if P x then Some 0 else (case findIndex P xs of None \<Rightarrow> None | Some i \<Rightarrow> Some (Suc i)))"

text \<open>\<open>items.splice(index, 1)\<close> removes the element at \<open>index\<close>.\<close>

definition splice1 :: "nat \<Rightarrow> 'a list \<Rightarrow> 'a list" where
  "splice1 i xs = take i xs @ drop (Suc i) xs"

text \<open>
  \<open>items.reduce((sum, item) => sum.add(item.getSubtotal()), Money.zero())\<close>: the
  accumulator (\<open>sum\<close> in the source) runs left to right, and the first exception ends the loop.
\<close>

fun reduceTotal :: "money \<Rightarrow> OrderItem list \<Rightarrow> error + money" where
  "reduceTotal acc [] = Inr acc"
| "reduceTotal acc (item # rest) =
     (case getSubtotal item of
        Inl e \<Rightarrow> Inl e
      | Inr sub \<Rightarrow>
          (case Money_add acc sub of
             Inl e \<Rightarrow> Inl e
           | Inr acc' \<Rightarrow> reduceTotal acc' rest))"

definition recalculateTotal :: "order \<Rightarrow> outcome \<times> order" where
  "recalculateTotal ord =
     (case Money_zero ''JPY'' of
        Inl e \<Rightarrow> (Thrown e, ord)
      | Inr z \<Rightarrow>
          (case reduceTotal z (items ord) of
             Inl e \<Rightarrow> (Thrown e, ord)
           | Inr t \<Rightarrow> (Done, ord\<lparr>totalAmount := t\<rparr>)))"

definition ensureCanModify :: "order \<Rightarrow> outcome" where
  "ensureCanModify ord = (if status ord \<noteq> DRAFT then Thrown InvalidState else Done)"

definition addItem :: "ProductId \<Rightarrow> real \<Rightarrow> money \<Rightarrow> order \<Rightarrow> outcome \<times> order" where
  "addItem p q u ord =
     (case ensureCanModify ord of
        Thrown e \<Rightarrow> (Thrown e, ord)
      | Done \<Rightarrow>
          if length (items ord) \<ge> maxItems then (Thrown MaxItemsExceeded, ord)
          else
            (case findIndex (\<lambda>item. hasProduct item p) (items ord) of
               Some i \<Rightarrow>
                 (case changeQuantity (getQuantity (items ord ! i) + q) (items ord ! i) of
                    Inl e \<Rightarrow> (Thrown e, ord)
                  | Inr item' \<Rightarrow> recalculateTotal (ord\<lparr>items := (items ord)[i := item']\<rparr>))
             | None \<Rightarrow>
                 (case OrderItem_new p q u of
                    Inl e \<Rightarrow> (Thrown e, ord)
                  | Inr newItem \<Rightarrow> recalculateTotal (ord\<lparr>items := items ord @ [newItem]\<rparr>))))"

definition removeItem :: "ProductId \<Rightarrow> order \<Rightarrow> outcome \<times> order" where
  "removeItem p ord =
     (case ensureCanModify ord of
        Thrown e \<Rightarrow> (Thrown e, ord)
      | Done \<Rightarrow>
          (case findIndex (\<lambda>item. hasProduct item p) (items ord) of
             None \<Rightarrow> (Thrown ItemNotFound, ord)
           | Some index \<Rightarrow> recalculateTotal (ord\<lparr>items := splice1 index (items ord)\<rparr>)))"

definition changeItemQuantity :: "ProductId \<Rightarrow> real \<Rightarrow> order \<Rightarrow> outcome \<times> order" where
  "changeItemQuantity p newQuantity ord =
     (case ensureCanModify ord of
        Thrown e \<Rightarrow> (Thrown e, ord)
      | Done \<Rightarrow>
          (case findIndex (\<lambda>item. hasProduct item p) (items ord) of
             None \<Rightarrow> (Thrown ItemNotFound, ord)
           | Some i \<Rightarrow>
               (case changeQuantity newQuantity (items ord ! i) of
                  Inl e \<Rightarrow> (Thrown e, ord)
                | Inr item' \<Rightarrow> recalculateTotal (ord\<lparr>items := (items ord)[i := item']\<rparr>))))"

definition place :: "date \<Rightarrow> order \<Rightarrow> outcome \<times> order" where
  "place now ord =
     (if status ord \<noteq> DRAFT then (Thrown InvalidState, ord)
      else if length (items ord) = 0 then (Thrown EmptyOrder, ord)
      else (Done, ord\<lparr>status := PLACED, placedAt := Some now\<rparr>))"

definition markAsPaid :: "order \<Rightarrow> outcome \<times> order" where
  "markAsPaid ord =
     (if status ord \<noteq> PLACED then (Thrown InvalidState, ord)
      else (Done, ord\<lparr>status := PAID\<rparr>))"

definition ship :: "order \<Rightarrow> outcome \<times> order" where
  "ship ord =
     (if status ord \<noteq> PAID then (Thrown InvalidState, ord)
      else (Done, ord\<lparr>status := SHIPPED\<rparr>))"

definition deliver :: "order \<Rightarrow> outcome \<times> order" where
  "deliver ord =
     (if status ord \<noteq> SHIPPED then (Thrown InvalidState, ord)
      else (Done, ord\<lparr>status := DELIVERED\<rparr>))"

definition cancel :: "order \<Rightarrow> outcome \<times> order" where
  "cancel ord =
     (if status ord = SHIPPED \<or> status ord = DELIVERED \<or> status ord = CANCELLED
      then (Thrown InvalidState, ord)
      else (Done, ord\<lparr>status := CANCELLED\<rparr>))"

definition Order_equals :: "order \<Rightarrow> order \<Rightarrow> bool" where
  "Order_equals this other = OrderId_equals (order_id this) (order_id other)"

definition getId :: "order \<Rightarrow> OrderId" where
  "getId ord = order_id ord"

subsection \<open>Sequences of calls\<close>

text \<open>
  A caller holds one \<open>Order\<close> and calls its public methods one after another; a call that
  throws leaves the object as it was at the \<open>throw\<close>, and the caller may go on calling.
\<close>

datatype operation =
    AddItem ProductId real money
  | RemoveItem ProductId
  | ChangeItemQuantity ProductId real
  | Place date
  | MarkAsPaid
  | Ship
  | Deliver
  | Cancel

fun perform :: "operation \<Rightarrow> order \<Rightarrow> outcome \<times> order" where
  "perform (AddItem p q u) ord = addItem p q u ord"
| "perform (RemoveItem p) ord = removeItem p ord"
| "perform (ChangeItemQuantity p q) ord = changeItemQuantity p q ord"
| "perform (Place now) ord = place now ord"
| "perform MarkAsPaid ord = markAsPaid ord"
| "perform Ship ord = ship ord"
| "perform Deliver ord = deliver ord"
| "perform Cancel ord = cancel ord"

fun run :: "operation list \<Rightarrow> order \<Rightarrow> order" where
  "run [] ord = ord"
| "run (op # ops) ord = run ops (snd (perform op ord))"

section \<open>InMemoryOrderRepository\<close>

text \<open>
  The repository is a \<open>Map<string, Order>\<close> keyed by \<open>order.getId().toString()\<close>. The
  methods are \<open>async\<close> without awaiting anything: each runs to completion when called.
  \<open>findById\<close> returns \<open>order || null\<close>; an \<open>Order\<close> object is never falsy.
\<close>

type_synonym repository = "string \<rightharpoonup> order"

definition save :: "order \<Rightarrow> repository \<Rightarrow> repository" where
  "save ord orders = orders(OrderId_toString (getId ord) \<mapsto> ord)"

definition findById :: "OrderId \<Rightarrow> repository \<Rightarrow> order option" where
  "findById i orders = orders (OrderId_toString i)"

definition delete :: "OrderId \<Rightarrow> repository \<Rightarrow> repository" where
  "delete i orders = orders(OrderId_toString i := None)"

section \<open>Specification-side notions and test data\<close>

text \<open>
  The sum the specification compares the total with: over the current lines, the unit
  price's amount times the quantity, floored as \<open>Money.multiply\<close> floors it.
\<close>

definition subtotalSum :: "OrderItem list \<Rightarrow> real" where
  "subtotalSum xs =
     sum_list (map (\<lambda>item. Math_floor (amount (unitPrice item) * quantity item)) xs)"

text \<open>Invariants of the orders a caller can reach through the public methods.\<close>

definition placedHasItems :: "order \<Rightarrow> bool" where
  "placedHasItems ord = (status ord \<in> {PLACED, PAID, SHIPPED, DELIVERED} \<longrightarrow> items ord \<noteq> [])"

definition withinCap :: "order \<Rightarrow> bool" where
  "withinCap ord = (length (items ord) \<le> maxItems \<and> distinct (map productId (items ord)))"

text \<open>
  Orders priced in yen only: every line has a quantity above zero and a unit price that
  is a valid amount of yen, and the stored total is the sum of the lines.
\<close>

definition validYen :: "money \<Rightarrow> bool" where
  "validYen m = (0 \<le> amount m \<and> currency m = ''JPY'')"

definition yenLines :: "OrderItem list \<Rightarrow> bool" where
  "yenLines xs = list_all (\<lambda>item. 0 < quantity item \<and> validYen (unitPrice item)) xs"

definition totalConsistent :: "order \<Rightarrow> bool" where
  "totalConsistent ord = (totalAmount ord = \<lparr>amount = subtotalSum (items ord), currency = ''JPY''\<rparr>)"

definition yenOrder :: "order \<Rightarrow> bool" where
  "yenOrder ord = (totalConsistent ord \<and> yenLines (items ord))"

fun yenOperation :: "operation \<Rightarrow> bool" where
  "yenOperation (AddItem p q u) = validYen u"
| "yenOperation _ = True"

text \<open>Values used by the concrete runs below.\<close>

abbreviation yen :: "real \<Rightarrow> money" where
  "yen n \<equiv> \<lparr>amount = n, currency = ''JPY''\<rparr>"

abbreviation usd :: "real \<Rightarrow> money" where
  "usd n \<equiv> \<lparr>amount = n, currency = ''USD''\<rparr>"

abbreviation P1 :: ProductId where
  "P1 \<equiv> ProductId ''P1''"

abbreviation P2 :: ProductId where
  "P2 \<equiv> ProductId ''P2''"

abbreviation fresh :: order where
  "fresh \<equiv> \<lparr>order_id = OrderId ''O1'', customerId = CustomerId ''C1'', items = [],
     status = DRAFT, totalAmount = yen 0, placedAt = None\<rparr>"

text \<open>A draft order holding one hundred lines, each of another product.\<close>

definition lineProduct :: "nat \<Rightarrow> ProductId" where
  "lineProduct n = ProductId (replicate (Suc n) CHR ''p'')"

definition tenYenLine :: "nat \<Rightarrow> OrderItem" where
  "tenYenLine n = \<lparr>productId = lineProduct n, quantity = 1, unitPrice = yen 10\<rparr>"

definition linesOrder :: "nat \<Rightarrow> order" where
  "linesOrder k = fresh\<lparr>items := map tenYenLine [0..<k], totalAmount := yen (10 * real k)\<rparr>"

definition fullOrder :: order where
  "fullOrder = linesOrder 100"

definition firstAdds :: "nat \<Rightarrow> operation list" where
  "firstAdds k = map (\<lambda>n. AddItem (lineProduct n) 1 (yen 10)) [0..<k]"

definition hundredAdds :: "operation list" where
  "hundredAdds = firstAdds 100"

section \<open>Basic facts\<close>

lemma toUpperCase_JPY: "toUpperCase ''JPY'' = ''JPY''"
  by code_simp

lemma Money_zero_JPY: "Money_zero ''JPY'' = Inr (yen 0)"
  by (simp add: Money_zero_def Money_new_def toUpperCase_JPY)

lemma Order_new_eq:
  "Order_new i c = Inr \<lparr>order_id = i, customerId = c, items = [], status = DRAFT,
     totalAmount = yen 0, placedAt = None\<rparr>"
  by (simp add: Order_new_def Money_zero_JPY)

lemma hasProduct_iff: "hasProduct item p \<longleftrightarrow> productId item = p"
  by (auto simp: hasProduct_def ProductId_equals_def ProductId.expand)

lemma findIndex_None: "findIndex P xs = None \<longleftrightarrow> (\<forall>x\<in>set xs. \<not> P x)"
  by (induction xs) (auto split: option.splits)

lemma findIndex_Some:
  "findIndex P xs = Some i \<Longrightarrow> i < length xs \<and> P (xs ! i) \<and> (\<forall>j<i. \<not> P (xs ! j))"
proof (induction xs arbitrary: i)
  case Nil
  then show ?case by simp
next
  case (Cons x xs)
  show ?case
  proof (cases "P x")
    case True
    with Cons.prems show ?thesis by simp
  next
    case False
    with Cons.prems obtain k where k: "findIndex P xs = Some k" and i: "i = Suc k"
      by (auto split: option.splits)
    from Cons.IH [OF k] i False show ?thesis
      by (auto simp: nth_Cons split: nat.splits)
  qed
qed

lemma distinct_splice1: "distinct xs \<Longrightarrow> distinct (splice1 i xs)"
  by (auto simp: splice1_def set_take_disj_set_drop_if_distinct)

lemma map_splice1: "map f (splice1 i xs) = splice1 i (map f xs)"
  by (simp add: splice1_def take_map drop_map)

lemma length_splice1: "length (splice1 i xs) \<le> length xs"
  by (simp add: splice1_def)

subsection \<open>What the recomputation of the total touches\<close>

lemma recalculateTotal_status: "status (snd (recalculateTotal ord)) = status ord"
  by (simp add: recalculateTotal_def split: sum.splits)


lemma recalculateTotal_items: "items (snd (recalculateTotal ord)) = items ord"
  by (simp add: recalculateTotal_def split: sum.splits)

lemma perform_status_mutation:
  "status (snd (addItem p q u ord)) = status ord"
  "status (snd (removeItem p ord)) = status ord"
  "status (snd (changeItemQuantity p q ord)) = status ord"
  by (auto simp: addItem_def removeItem_def changeItemQuantity_def ensureCanModify_def
       recalculateTotal_status split: option.splits sum.splits)

lemma mutation_nondraft:
  "status ord \<noteq> DRAFT \<Longrightarrow> snd (addItem p q u ord) = ord"
  "status ord \<noteq> DRAFT \<Longrightarrow> snd (removeItem p ord) = ord"
  "status ord \<noteq> DRAFT \<Longrightarrow> snd (changeItemQuantity p q ord) = ord"
  by (simp_all add: addItem_def removeItem_def changeItemQuantity_def ensureCanModify_def)

subsection \<open>Orders past the draft state keep their lines\<close>

lemma placedHasItems_perform:
  assumes "placedHasItems ord"
  shows "placedHasItems (snd (perform op ord))"
proof (cases op)
  case (AddItem p q u)
  show ?thesis
  proof (cases "status ord = DRAFT")
    case True
    then show ?thesis
      using perform_status_mutation(1) [of p q u ord] AddItem by (simp add: placedHasItems_def)
  next
    case False
    with assms AddItem show ?thesis by (simp add: mutation_nondraft)
  qed
next
  case (RemoveItem p)
  show ?thesis
  proof (cases "status ord = DRAFT")
    case True
    then show ?thesis
      using perform_status_mutation(2) [of p ord] RemoveItem by (simp add: placedHasItems_def)
  next
    case False
    with assms RemoveItem show ?thesis by (simp add: mutation_nondraft)
  qed
next
  case (ChangeItemQuantity p q)
  show ?thesis
  proof (cases "status ord = DRAFT")
    case True
    then show ?thesis
      using perform_status_mutation(3) [of p q ord] ChangeItemQuantity
      by (simp add: placedHasItems_def)
  next
    case False
    with assms ChangeItemQuantity show ?thesis by (simp add: mutation_nondraft)
  qed
next
  case (Place t)
  with assms show ?thesis by (auto simp: placedHasItems_def place_def)
next
  case MarkAsPaid
  with assms show ?thesis by (auto simp: placedHasItems_def markAsPaid_def)
next
  case Ship
  with assms show ?thesis by (auto simp: placedHasItems_def ship_def)
next
  case Deliver
  with assms show ?thesis by (auto simp: placedHasItems_def deliver_def)
next
  case Cancel
  with assms show ?thesis by (auto simp: placedHasItems_def cancel_def)
qed

lemma placedHasItems_run: "placedHasItems ord \<Longrightarrow> placedHasItems (run ops ord)"
  by (induction ops arbitrary: ord) (simp_all add: placedHasItems_perform)

subsection \<open>The line cap\<close>

lemma withinCap_addItem: "withinCap ord \<Longrightarrow> withinCap (snd (addItem p q u ord))"
proof -
  assume w: "withinCap ord"
  show ?thesis
  proof (cases "findIndex (\<lambda>item. hasProduct item p) (items ord)")
    case None
    then have "p \<notin> set (map productId (items ord))"
      by (auto simp: findIndex_None hasProduct_iff)
    with w None show ?thesis
      by (auto simp: addItem_def recalculateTotal_items OrderItem_new_def withinCap_def
            split: outcome.splits)
  next
    case (Some i)
    then have i: "i < length (items ord)" by (auto dest: findIndex_Some)
    have "map productId ((items ord)[i := (items ord ! i)\<lparr>quantity := n\<rparr>]) =
            map productId (items ord)" for n
      using i by (simp add: map_update list_update_same_conv)
    with w Some show ?thesis
      by (auto simp: addItem_def recalculateTotal_items changeQuantity_def withinCap_def
            split: outcome.splits)
  qed
qed

lemma withinCap_removeItem: "withinCap ord \<Longrightarrow> withinCap (snd (removeItem p ord))"
  using length_splice1 [of _ "items ord"]
  by (auto simp: removeItem_def recalculateTotal_items withinCap_def map_splice1
        distinct_splice1 intro: order_trans split: outcome.splits option.splits)

lemma withinCap_changeItemQuantity:
  "withinCap ord \<Longrightarrow> withinCap (snd (changeItemQuantity p q ord))"
proof (cases "findIndex (\<lambda>item. hasProduct item p) (items ord)")
  case None
  assume "withinCap ord"
  with None show ?thesis
    by (auto simp: changeItemQuantity_def split: outcome.splits)
next
  case (Some i)
  assume w: "withinCap ord"
  from Some have i: "i < length (items ord)" by (auto dest: findIndex_Some)
  have "map productId ((items ord)[i := (items ord ! i)\<lparr>quantity := n\<rparr>]) =
          map productId (items ord)" for n
    using i by (simp add: map_update list_update_same_conv)
  with w Some show ?thesis
    by (auto simp: changeItemQuantity_def recalculateTotal_items changeQuantity_def
          withinCap_def split: outcome.splits)
qed

lemma withinCap_status: "withinCap (ord\<lparr>status := s\<rparr>) = withinCap ord"
  by (simp add: withinCap_def)

lemma withinCap_placedAt: "withinCap (ord\<lparr>placedAt := t\<rparr>) = withinCap ord"
  by (simp add: withinCap_def)

lemma withinCap_perform: "withinCap ord \<Longrightarrow> withinCap (snd (perform op ord))"
  by (cases op)
     (simp_all add: withinCap_addItem withinCap_removeItem withinCap_changeItemQuantity
        withinCap_status withinCap_placedAt
        place_def markAsPaid_def ship_def deliver_def cancel_def)

lemma withinCap_run: "withinCap ord \<Longrightarrow> withinCap (run ops ord)"
  by (induction ops arbitrary: ord) (simp_all add: withinCap_perform)

subsection \<open>The total after a recomputation\<close>


lemma Math_floor_nonneg: "0 \<le> x \<Longrightarrow> 0 \<le> Math_floor x"
  by (simp add: Math_floor_def)

lemma subtotalSum_Nil: "subtotalSum [] = 0"
  by (simp add: subtotalSum_def)

lemma subtotalSum_Cons:
  "subtotalSum (x # xs) = Math_floor (amount (unitPrice x) * quantity x) + subtotalSum xs"
  by (simp add: subtotalSum_def)

lemma Money_add_Inr:
  "Money_add a b = Inr r \<Longrightarrow>
     currency b = currency a \<and>
     r = \<lparr>amount = amount a + amount b, currency = toUpperCase (currency a)\<rparr>"
  by (auto simp: Money_add_def assertSameCurrency_def Money_new_def split: if_splits)

lemma getSubtotal_Inr:
  "getSubtotal item = Inr s \<Longrightarrow>
     s = \<lparr>amount = Math_floor (amount (unitPrice item) * quantity item),
          currency = toUpperCase (currency (unitPrice item))\<rparr>"
  by (auto simp: getSubtotal_def Money_multiply_def Money_new_def split: if_splits)

lemma reduceTotal_Inr:
  "reduceTotal acc xs = Inr t \<Longrightarrow> currency acc = ''JPY'' \<Longrightarrow>
     t = yen (amount acc + subtotalSum xs)"
proof (induction xs arbitrary: acc)
  case Nil
  then show ?case by (simp add: subtotalSum_Nil)
next
  case (Cons item rest)
  from Cons.prems(1) obtain sub acc' where
    s: "getSubtotal item = Inr sub" and a: "Money_add acc sub = Inr acc'"
    and r: "reduceTotal acc' rest = Inr t"
    by (auto split: sum.splits)
  from a Cons.prems(2) have acc': "acc' = yen (amount acc + amount sub)"
    by (auto dest: Money_add_Inr simp: toUpperCase_JPY)
  from s have "amount sub = Math_floor (amount (unitPrice item) * quantity item)"
    by (auto dest: getSubtotal_Inr)
  with Cons.IH [OF r] acc' show ?case by (simp add: subtotalSum_Cons)
qed

lemma reduceTotal_Inl:
  "reduceTotal acc xs = Inl e \<Longrightarrow>
     e \<in> {InvalidFactor, InvalidAmount, InvalidCurrency, CurrencyMismatch}"
proof (induction xs arbitrary: acc)
  case Nil
  then show ?case by simp
next
  case (Cons item rest)
  then show ?case
    by (auto simp: getSubtotal_def Money_multiply_def Money_add_def assertSameCurrency_def
          Money_new_def split: sum.splits if_splits)
qed

lemma recalculateTotal_Done:
  "recalculateTotal ord = (Done, ord') \<Longrightarrow>
     ord' = ord\<lparr>totalAmount := yen (subtotalSum (items ord))\<rparr>"
  by (auto simp: recalculateTotal_def Money_zero_JPY split: sum.splits dest: reduceTotal_Inr)

lemma recalculateTotal_Thrown:
  "recalculateTotal ord = (Thrown e, ord') \<Longrightarrow>
     ord' = ord \<and> e \<in> {InvalidFactor, InvalidAmount, InvalidCurrency, CurrencyMismatch}"
  by (auto simp: recalculateTotal_def Money_zero_JPY split: sum.splits dest: reduceTotal_Inl)


subsection \<open>Orders priced in yen\<close>

lemma yenLines_subtotalSum: "yenLines xs \<Longrightarrow> 0 \<le> subtotalSum xs"
  by (induction xs)
     (auto simp: yenLines_def validYen_def subtotalSum_Nil subtotalSum_Cons
        intro!: add_nonneg_nonneg Math_floor_nonneg)

lemma reduceTotal_yen:
  "yenLines xs \<Longrightarrow> validYen acc \<Longrightarrow>
     reduceTotal acc xs = Inr (yen (amount acc + subtotalSum xs))"
proof (induction xs arbitrary: acc)
  case Nil
  then show ?case by (simp add: subtotalSum_Nil validYen_def)
next
  case (Cons item rest)
  define sub where "sub = Math_floor (amount (unitPrice item) * quantity item)"
  from Cons.prems have q: "0 < quantity item" and u: "validYen (unitPrice item)"
    and rest: "yenLines rest"
    by (simp_all add: yenLines_def)
  from q u have "0 \<le> amount (unitPrice item) * quantity item"
    by (simp add: validYen_def)
  then have nn: "0 \<le> sub"
    unfolding sub_def by (rule Math_floor_nonneg)
  then have nn': "\<not> sub < 0"
    by (simp add: not_less)
  from q u nn' have s: "getSubtotal item = Inr (yen sub)"
    by (simp add: getSubtotal_def Money_multiply_def Money_new_def validYen_def toUpperCase_JPY
          sub_def)
  from Cons.prems(2) nn have a: "Money_add acc (yen sub) = Inr (yen (amount acc + sub))"
    by (simp add: Money_add_def assertSameCurrency_def Money_new_def validYen_def toUpperCase_JPY)
  have v: "validYen (yen (amount acc + sub))"
    using Cons.prems(2) nn by (simp add: validYen_def)
  show ?case
    using Cons.IH [OF rest v] s a by (simp add: subtotalSum_Cons add.assoc sub_def)
qed

lemma recalculateTotal_yen:
  "yenLines (items ord) \<Longrightarrow>
     recalculateTotal ord = (Done, ord\<lparr>totalAmount := yen (subtotalSum (items ord))\<rparr>)"
  using reduceTotal_yen [of "items ord" "yen 0"]
  by (simp add: recalculateTotal_def Money_zero_JPY validYen_def)

lemma yenLines_update:
  "yenLines xs \<Longrightarrow> 0 < quantity x \<Longrightarrow> validYen (unitPrice x) \<Longrightarrow> yenLines (xs[i := x])"
  using set_update_subset_insert [of xs i x] by (auto simp: yenLines_def list_all_iff)

lemma yenLines_append:
  "yenLines xs \<Longrightarrow> 0 < quantity x \<Longrightarrow> validYen (unitPrice x) \<Longrightarrow> yenLines (xs @ [x])"
  by (simp add: yenLines_def)

lemma yenLines_splice1: "yenLines xs \<Longrightarrow> yenLines (splice1 i xs)"
  by (auto simp: yenLines_def list_all_iff splice1_def dest: in_set_takeD in_set_dropD)

lemma yenLines_nth: "yenLines xs \<Longrightarrow> i < length xs \<Longrightarrow> validYen (unitPrice (xs ! i))"
  by (simp add: yenLines_def list_all_length)

lemma yenOrder_recalculateTotal:
  "yenLines (items ord) \<Longrightarrow> yenOrder (snd (recalculateTotal ord))"
  by (simp add: recalculateTotal_yen yenOrder_def totalConsistent_def)

lemma yenOrder_addItem:
  assumes "yenOrder ord" and "validYen u"
  shows "yenOrder (snd (addItem p q u ord))"
proof (cases "findIndex (\<lambda>item. hasProduct item p) (items ord)")
  case None
  have "yenLines (items ord @ [\<lparr>productId = p, quantity = q, unitPrice = u\<rparr>])" if "0 < q"
    using assms that by (auto intro!: yenLines_append simp: yenOrder_def)
  with assms None show ?thesis
    by (auto simp: addItem_def OrderItem_new_def yenOrder_recalculateTotal
          split: outcome.splits)
next
  case (Some i)
  then have i: "i < length (items ord)" by (auto dest: findIndex_Some)
  have "yenLines ((items ord)[i := (items ord ! i)\<lparr>quantity := n\<rparr>])" if "0 < n" for n
    using assms(1) i that yenLines_nth [of "items ord" i]
    by (auto intro!: yenLines_update simp: yenOrder_def)
  with assms Some show ?thesis
    by (auto simp: addItem_def changeQuantity_def yenOrder_recalculateTotal
          split: outcome.splits)
qed

lemma yenOrder_removeItem:
  assumes "yenOrder ord"
  shows "yenOrder (snd (removeItem p ord))"
proof -
  have "yenLines (splice1 i (items ord))" for i
    using assms by (simp add: yenLines_splice1 yenOrder_def)
  with assms show ?thesis
    by (auto simp: removeItem_def yenOrder_recalculateTotal
          split: outcome.splits option.splits)
qed

lemma yenOrder_status: "yenOrder (ord\<lparr>status := s\<rparr>) = yenOrder ord"
  by (simp add: yenOrder_def totalConsistent_def)

lemma yenOrder_placedAt: "yenOrder (ord\<lparr>placedAt := t\<rparr>) = yenOrder ord"
  by (simp add: yenOrder_def totalConsistent_def)

lemma yenOrder_changeItemQuantity:
  assumes "yenOrder ord"
  shows "yenOrder (snd (changeItemQuantity p q ord))"
proof (cases "findIndex (\<lambda>item. hasProduct item p) (items ord)")
  case None
  with assms show ?thesis
    by (auto simp: changeItemQuantity_def split: outcome.splits)
next
  case (Some i)
  then have i: "i < length (items ord)" by (auto dest: findIndex_Some)
  have "yenLines ((items ord)[i := (items ord ! i)\<lparr>quantity := n\<rparr>])" if "0 < n" for n
    using assms(1) i that yenLines_nth [of "items ord" i]
    by (auto intro!: yenLines_update simp: yenOrder_def)
  with assms Some show ?thesis
    by (auto simp: changeItemQuantity_def changeQuantity_def yenOrder_recalculateTotal
          split: outcome.splits)
qed

lemma yenOrder_perform:
  "yenOrder ord \<Longrightarrow> yenOperation op \<Longrightarrow> yenOrder (snd (perform op ord))"
  by (cases op)
     (simp_all add: yenOrder_addItem yenOrder_removeItem yenOrder_changeItemQuantity
        yenOrder_status yenOrder_placedAt place_def markAsPaid_def ship_def deliver_def
        cancel_def)

lemma yenOrder_run:
  "yenOrder ord \<Longrightarrow> list_all yenOperation ops \<Longrightarrow> yenOrder (run ops ord)"
  by (induction ops arbitrary: ord) (simp_all add: yenOrder_perform)

text \<open>
  When every unit price handed to \<open>addItem\<close> is a valid amount of yen, the stored total
  is the sum of the lines in every state a sequence of calls reaches, failed calls
  included.
\<close>

lemma yen_runs_keep_total:
  assumes "Order_new i c = Inr ord" and "list_all yenOperation ops"
  shows "totalAmount (run ops ord) = yen (subtotalSum (items (run ops ord)))"
proof -
  from assms(1) have "yenOrder ord"
    by (auto simp: Order_new_eq yenOrder_def totalConsistent_def yenLines_def subtotalSum_Nil)
  then have "yenOrder (run ops ord)" using assms(2) by (rule yenOrder_run)
  then show ?thesis by (simp add: yenOrder_def totalConsistent_def)
qed

text \<open>
  After a mutation that returns normally, from any order, the stored total is the sum of
  the lines, in yen.
\<close>

lemma mutation_Done_total:
  assumes "perform op ord = (Done, ord')"
    and "op = AddItem p q u \<or> op = RemoveItem p \<or> op = ChangeItemQuantity p q"
  shows "totalAmount ord' = yen (subtotalSum (items ord'))"
  using assms
  by (auto simp: addItem_def removeItem_def changeItemQuantity_def
        split: outcome.splits if_splits option.splits sum.splits
        dest!: recalculateTotal_Done)

text \<open>
  A call that fails at one of the guards (status, line cap, missing line, quantity, empty
  order) leaves the order as it was. The guards all come before the first assignment.
\<close>

lemma guarded_failure_unchanged:
  assumes "perform op ord = (Thrown e, ord')"
    and "e \<in> {InvalidState, EmptyOrder, ItemNotFound, InvalidQuantity, MaxItemsExceeded}"
  shows "ord' = ord"
proof (cases op)
  case (AddItem p q u)
  with assms show ?thesis
    by (auto simp: addItem_def ensureCanModify_def changeQuantity_def OrderItem_new_def
          split: if_splits option.splits dest!: recalculateTotal_Thrown)
next
  case (RemoveItem p)
  with assms show ?thesis
    by (auto simp: removeItem_def ensureCanModify_def
          split: if_splits option.splits dest!: recalculateTotal_Thrown)
next
  case (ChangeItemQuantity p q)
  with assms show ?thesis
    by (auto simp: changeItemQuantity_def ensureCanModify_def changeQuantity_def
          split: if_splits option.splits dest!: recalculateTotal_Thrown)
next
  case (Place t)
  with assms show ?thesis by (auto simp: place_def split: if_splits)
next
  case MarkAsPaid
  with assms show ?thesis by (auto simp: markAsPaid_def split: if_splits)
next
  case Ship
  with assms show ?thesis by (auto simp: ship_def split: if_splits)
next
  case Deliver
  with assms show ?thesis by (auto simp: deliver_def split: if_splits)
next
  case Cancel
  with assms show ?thesis by (auto simp: cancel_def split: if_splits)
qed


subsection \<open>The order of one hundred lines\<close>


lemma run_snoc: "run (ops @ [op]) ord = snd (perform op (run ops ord))"
  by (induction ops arbitrary: ord) simp_all

lemma lineProduct_inject: "lineProduct m = lineProduct n \<longleftrightarrow> m = n"
proof
  assume "lineProduct m = lineProduct n"
  then have "length (replicate (Suc m) CHR ''p'') = length (replicate (Suc n) CHR ''p'')"
    by (simp add: lineProduct_def)
  then show "m = n" by simp
qed simp

lemma subtotalSum_tenYenLines: "subtotalSum (map tenYenLine [0..<k]) = 10 * real k"
  by (induction k) (simp_all add: subtotalSum_def tenYenLine_def Math_floor_def)

lemma yenLines_tenYenLines: "yenLines (map tenYenLine xs)"
  by (induction xs) (simp_all add: yenLines_def tenYenLine_def validYen_def)

lemma addItem_linesOrder:
  assumes "k < 100"
  shows "addItem (lineProduct k) 1 (yen 10) (linesOrder k) = (Done, linesOrder (Suc k))"
proof -
  have f: "findIndex (\<lambda>item. hasProduct item (lineProduct k)) (map tenYenLine [0..<k]) = None"
    by (auto simp: findIndex_None hasProduct_iff tenYenLine_def lineProduct_inject)
  have m: "map tenYenLine [0..<k] @ [\<lparr>productId = lineProduct k, quantity = 1, unitPrice = yen 10\<rparr>]
             = map tenYenLine [0..<Suc k]"
    by (simp add: tenYenLine_def)
  have r: "recalculateTotal (fresh\<lparr>items := map tenYenLine [0..<Suc k], totalAmount := t\<rparr>) =
             (Done, linesOrder (Suc k))" for t
    using recalculateTotal_yen [of "fresh\<lparr>items := map tenYenLine [0..<Suc k], totalAmount := t\<rparr>"]
      yenLines_tenYenLines [of "[0..<Suc k]"] subtotalSum_tenYenLines [of "Suc k"]
    by (simp add: linesOrder_def)
  show ?thesis
    using assms f r [of "yen (10 * real k)"]
    by (simp add: addItem_def ensureCanModify_def maxItems_def OrderItem_new_def linesOrder_def
          m del: upt_Suc)
qed

lemma run_firstAdds: "k \<le> 100 \<Longrightarrow> run (firstAdds k) fresh = linesOrder k"
proof (induction k)
  case 0
  then show ?case by (simp add: firstAdds_def linesOrder_def)
next
  case (Suc k)
  then have "run (firstAdds k) fresh = linesOrder k" and "k < 100" by simp_all
  then show ?case
    using addItem_linesOrder [of k] by (simp add: firstAdds_def run_snoc)
qed

lemma run_hundredAdds: "run hundredAdds fresh = fullOrder"
  by (simp add: hundredAdds_def fullOrder_def run_firstAdds)

lemma fullOrder_facts:
  "status fullOrder = DRAFT" "length (items fullOrder) = 100"
  by (simp_all add: fullOrder_def linesOrder_def)

lemma fullOrder_line:
  "n < 100 \<Longrightarrow> items fullOrder ! n = tenYenLine n"
  by (simp add: fullOrder_def linesOrder_def del: upt_Suc)


section \<open>The claims\<close>

text \<open>
  Claim C1: on a draft order, after any sequence of \<open>addItem\<close>, \<open>removeItem\<close> and
  \<open>changeItemQuantity\<close> calls, the total is the sum over the lines of unit price times
  quantity. The code breaks this when a unit price is not in yen: \<open>addItem\<close> pushes the
  line, then the recomputation throws in \<open>Money.add\<close>, and the call ends with the new
  line in the list and the old total. Here a draft holds two units at 1000 yen, total
  2000 yen; adding one unit at 5 US dollars (a value the Money constructor accepts)
  fails with \<open>CurrencyMismatch\<close> and leaves two lines whose amounts sum to 2005 beside
  a total of 2000 yen.
\<close>

theorem foreign_currency_line_breaks_total:
  "Money_new 5 ''USD'' = Inr (usd 5) \<and>
   perform (AddItem P2 1 (usd 5)) (run [AddItem P1 2 (yen 1000)] fresh) =
     (Thrown CurrencyMismatch,
      fresh\<lparr>items := [\<lparr>productId = P1, quantity = 2, unitPrice = yen 1000\<rparr>,
                       \<lparr>productId = P2, quantity = 1, unitPrice = usd 5\<rparr>],
            totalAmount := yen 2000\<rparr>) \<and>
   subtotalSum [\<lparr>productId = P1, quantity = 2, unitPrice = yen 1000\<rparr>,
                \<lparr>productId = P2, quantity = 1, unitPrice = usd 5\<rparr>] = 2005 \<and>
   amount (totalAmount (snd (perform (AddItem P2 1 (usd 5)) (run [AddItem P1 2 (yen 1000)] fresh)))) \<noteq>
     subtotalSum (items (snd (perform (AddItem P2 1 (usd 5)) (run [AddItem P1 2 (yen 1000)] fresh))))"
  by code_simp




text \<open>
  Claim C3. On an order whose status is not \<open>DRAFT\<close>, each of \<open>addItem\<close>, \<open>removeItem\<close>
  and \<open>changeItemQuantity\<close> fails with \<open>InvalidState\<close> and returns the order as it was:
  lines, status, total and \<open>placedAt\<close> are all unchanged.
\<close>

theorem mutation_of_non_draft_is_rejected:
  "status ord \<noteq> DRAFT \<Longrightarrow>
     addItem p q u ord = (Thrown InvalidState, ord) \<and>
     removeItem p ord = (Thrown InvalidState, ord) \<and>
     changeItemQuantity p q' ord = (Thrown InvalidState, ord)"
  by (simp add: addItem_def removeItem_def changeItemQuantity_def ensureCanModify_def)

text \<open>C3 on a placed order.\<close>

theorem mutation_of_non_draft_is_rejected_witness:
  "status (run [AddItem P1 2 (yen 1000), Place 7] fresh) \<noteq> DRAFT \<and>
   addItem P1 1 (yen 5) (run [AddItem P1 2 (yen 1000), Place 7] fresh) =
     (Thrown InvalidState, run [AddItem P1 2 (yen 1000), Place 7] fresh) \<and>
   removeItem P1 (run [AddItem P1 2 (yen 1000), Place 7] fresh) =
     (Thrown InvalidState, run [AddItem P1 2 (yen 1000), Place 7] fresh) \<and>
   changeItemQuantity P1 4 (run [AddItem P1 2 (yen 1000), Place 7] fresh) =
     (Thrown InvalidState, run [AddItem P1 2 (yen 1000), Place 7] fresh)"
proof -
  have h: "status (run [AddItem P1 2 (yen 1000), Place 7] fresh) \<noteq> DRAFT"
    by code_simp
  show ?thesis
    using h mutation_of_non_draft_is_rejected [OF h, of P1 1 "yen 5" 4] by simp
qed

text \<open>
  Claim C4. \<open>cancel\<close> succeeds exactly when the status is \<open>DRAFT\<close>, \<open>PLACED\<close> or \<open>PAID\<close>,
  and then the status is \<open>CANCELLED\<close> and nothing else changes; from \<open>SHIPPED\<close>,
  \<open>DELIVERED\<close> or \<open>CANCELLED\<close> it fails and the order is unchanged. From \<open>DELIVERED\<close> and
  from \<open>CANCELLED\<close> no operation changes the status.
\<close>

theorem cancel_and_terminal_states:
  "(fst (cancel ord) = Done \<longleftrightarrow> status ord \<in> {DRAFT, PLACED, PAID}) \<and>
   (status ord \<in> {DRAFT, PLACED, PAID} \<longrightarrow> cancel ord = (Done, ord\<lparr>status := CANCELLED\<rparr>)) \<and>
   (status ord \<in> {SHIPPED, DELIVERED, CANCELLED} \<longrightarrow> cancel ord = (Thrown InvalidState, ord)) \<and>
   (status ord \<in> {DELIVERED, CANCELLED} \<longrightarrow> status (snd (perform op ord)) = status ord)"
proof -
  have a: "fst (cancel ord) = Done \<longleftrightarrow> status ord \<in> {DRAFT, PLACED, PAID}"
    by (cases "status ord") (simp_all add: cancel_def)
  have b: "status ord \<in> {DRAFT, PLACED, PAID} \<longrightarrow> cancel ord = (Done, ord\<lparr>status := CANCELLED\<rparr>)"
    by (auto simp: cancel_def)
  have c: "status ord \<in> {SHIPPED, DELIVERED, CANCELLED} \<longrightarrow>
             cancel ord = (Thrown InvalidState, ord)"
    by (auto simp: cancel_def)
  have d: "status ord \<in> {DELIVERED, CANCELLED} \<longrightarrow> status (snd (perform op ord)) = status ord"
    by (cases op)
       (auto simp: perform_status_mutation place_def markAsPaid_def ship_def deliver_def
          cancel_def)
  from a b c d show ?thesis by blast
qed

text \<open>
  C4 on a paid order, which \<open>cancel\<close> accepts, and on the delivered order, which it
  rejects and on which \<open>place\<close> changes nothing.
\<close>

theorem cancel_and_terminal_states_witness:
  "cancel (run [AddItem P1 2 (yen 1000), Place 7, MarkAsPaid] fresh) =
     (Done, (run [AddItem P1 2 (yen 1000), Place 7, MarkAsPaid] fresh)\<lparr>status := CANCELLED\<rparr>) \<and>
   cancel (run [AddItem P1 2 (yen 1000), Place 7, MarkAsPaid, Ship, Deliver] fresh) =
     (Thrown InvalidState, run [AddItem P1 2 (yen 1000), Place 7, MarkAsPaid, Ship, Deliver] fresh) \<and>
   status (snd (perform (Place 9)
     (run [AddItem P1 2 (yen 1000), Place 7, MarkAsPaid, Ship, Deliver] fresh))) = DELIVERED"
proof -
  have p: "status (run [AddItem P1 2 (yen 1000), Place 7, MarkAsPaid] fresh) = PAID"
    by code_simp
  have d: "status (run [AddItem P1 2 (yen 1000), Place 7, MarkAsPaid, Ship, Deliver] fresh) =
             DELIVERED"
    by code_simp
  show ?thesis
    using p d
      cancel_and_terminal_states
        [of "run [AddItem P1 2 (yen 1000), Place 7, MarkAsPaid] fresh" Cancel]
      cancel_and_terminal_states
        [of "run [AddItem P1 2 (yen 1000), Place 7, MarkAsPaid, Ship, Deliver] fresh" "Place 9"]
    by simp
qed

text \<open>
  Claim C5, as amended. On a draft order holding fewer than 100 lines, \<open>addItem\<close> with a
  product that an existing line has, and a quantity that keeps that line's quantity
  above zero, sets the quantity of the first such line to the old quantity plus the given
  one and adds no line. When the order already holds 100 lines, or the new quantity
  would be zero or less, \<open>addItem\<close> fails and the order is unchanged. \<open>removeItem\<close> on a
  draft order with a product that no line has fails with \<open>ItemNotFound\<close> and changes
  nothing. On the new order, \<open>addItem\<close> of 2 and then 3 units of the product P1 at 1000
  yen gives one line of quantity 5 and a total of 5000 yen.
\<close>

theorem addItem_merges_below_cap:
  "(status ord = DRAFT \<and> length (items ord) < maxItems \<and>
    findIndex (\<lambda>item. hasProduct item p) (items ord) = Some i \<and>
    0 < quantity (items ord ! i) + q \<longrightarrow>
      items (snd (addItem p q u ord)) =
        (items ord)[i := (items ord ! i)\<lparr>quantity := quantity (items ord ! i) + q\<rparr>]) \<and>
   (status ord = DRAFT \<and>
    findIndex (\<lambda>item. hasProduct item p) (items ord) = Some i \<and>
    (maxItems \<le> length (items ord) \<or> quantity (items ord ! i) + q \<le> 0) \<longrightarrow>
      fst (addItem p q u ord) \<noteq> Done \<and> snd (addItem p q u ord) = ord) \<and>
   (status ord = DRAFT \<and> findIndex (\<lambda>item. hasProduct item p) (items ord) = None \<longrightarrow>
      removeItem p ord = (Thrown ItemNotFound, ord)) \<and>
   run [AddItem P1 2 (yen 1000), AddItem P1 3 (yen 1000)] fresh =
     fresh\<lparr>items := [\<lparr>productId = P1, quantity = 5, unitPrice = yen 1000\<rparr>],
           totalAmount := yen 5000\<rparr>"
proof -
  have a: "status ord = DRAFT \<and> length (items ord) < maxItems \<and>
    findIndex (\<lambda>item. hasProduct item p) (items ord) = Some i \<and>
    0 < quantity (items ord ! i) + q \<longrightarrow>
      items (snd (addItem p q u ord)) =
        (items ord)[i := (items ord ! i)\<lparr>quantity := quantity (items ord ! i) + q\<rparr>]"
    by (auto simp: addItem_def ensureCanModify_def changeQuantity_def getQuantity_def
          recalculateTotal_items)
  have b: "status ord = DRAFT \<and>
    findIndex (\<lambda>item. hasProduct item p) (items ord) = Some i \<and>
    (maxItems \<le> length (items ord) \<or> quantity (items ord ! i) + q \<le> 0) \<longrightarrow>
      fst (addItem p q u ord) \<noteq> Done \<and> snd (addItem p q u ord) = ord"
    by (auto simp: addItem_def ensureCanModify_def changeQuantity_def getQuantity_def)
  have c: "status ord = DRAFT \<and> findIndex (\<lambda>item. hasProduct item p) (items ord) = None \<longrightarrow>
      removeItem p ord = (Thrown ItemNotFound, ord)"
    by (simp add: removeItem_def ensureCanModify_def)
  have d: "run [AddItem P1 2 (yen 1000), AddItem P1 3 (yen 1000)] fresh =
     fresh\<lparr>items := [\<lparr>productId = P1, quantity = 5, unitPrice = yen 1000\<rparr>],
           totalAmount := yen 5000\<rparr>"
    by code_simp
  from a b c d show ?thesis by blast
qed

text \<open>
  The amended C5 on the draft holding two units of P1: three more units make five, one
  and a half fewer leave half a unit (a quantity above zero passes \<open>changeQuantity\<close>),
  two fewer are refused and change nothing; and \<open>removeItem\<close> of P1 on the new order
  fails with \<open>ItemNotFound\<close>.
\<close>

theorem addItem_merges_below_cap_witness:
  "items (snd (addItem P1 3 (yen 1000) (run [AddItem P1 2 (yen 1000)] fresh))) =
     [\<lparr>productId = P1, quantity = 5, unitPrice = yen 1000\<rparr>] \<and>
   items (snd (addItem P1 (- 3 / 2) (yen 1000) (run [AddItem P1 2 (yen 1000)] fresh))) =
     [\<lparr>productId = P1, quantity = 1 / 2, unitPrice = yen 1000\<rparr>] \<and>
   fst (addItem P1 (- 2) (yen 1000) (run [AddItem P1 2 (yen 1000)] fresh)) \<noteq> Done \<and>
   snd (addItem P1 (- 2) (yen 1000) (run [AddItem P1 2 (yen 1000)] fresh)) =
     run [AddItem P1 2 (yen 1000)] fresh \<and>
   removeItem P1 fresh = (Thrown ItemNotFound, fresh)"
proof -
  have r: "snd (addItem P1 2 (yen 1000) fresh) =
             fresh\<lparr>items := [\<lparr>productId = P1, quantity = 2, unitPrice = yen 1000\<rparr>],
                   totalAmount := yen 2000\<rparr>"
    by code_simp
  have f: "findIndex (\<lambda>item. hasProduct item P1)
             [\<lparr>productId = P1, quantity = 2, unitPrice = yen 1000\<rparr>] = Some 0"
    by (simp add: hasProduct_iff)
  have g: "findIndex (\<lambda>item. hasProduct item P1) (items fresh) = None"
    by simp
  show ?thesis
    using f g
      addItem_merges_below_cap
        [of "fresh\<lparr>items := [\<lparr>productId = P1, quantity = 2, unitPrice = yen 1000\<rparr>],
                   totalAmount := yen 2000\<rparr>" P1 0 3 "yen 1000"]
      addItem_merges_below_cap
        [of "fresh\<lparr>items := [\<lparr>productId = P1, quantity = 2, unitPrice = yen 1000\<rparr>],
                   totalAmount := yen 2000\<rparr>" P1 0 "- 3 / 2" "yen 1000"]
      addItem_merges_below_cap
        [of "fresh\<lparr>items := [\<lparr>productId = P1, quantity = 2, unitPrice = yen 1000\<rparr>],
                   totalAmount := yen 2000\<rparr>" P1 0 "- 2" "yen 1000"]
      addItem_merges_below_cap [of fresh P1 0 1 "yen 1000"]
    by (simp add: r maxItems_def)
qed

text \<open>
  C5 as it is written fails at the line cap. The order reached by one hundred \<open>addItem\<close>
  calls with one hundred products is a draft whose line 7 has the product of that name
  and quantity 1; \<open>addItem\<close> of three more units of that product fails, and the line keeps
  quantity 1.
\<close>

theorem merge_fails_at_hundred_lines:
  "run hundredAdds fresh = fullOrder \<and> status fullOrder = DRAFT \<and>
   hasProduct (items fullOrder ! 7) (lineProduct 7) \<and>
   quantity (items fullOrder ! 7) = 1 \<and>
   fst (addItem (lineProduct 7) 3 (yen 10) fullOrder) = Thrown MaxItemsExceeded \<and>
   quantity (items (snd (addItem (lineProduct 7) 3 (yen 10) fullOrder)) ! 7) = 1"
  by (simp add: run_hundredAdds fullOrder_facts fullOrder_line hasProduct_iff tenYenLine_def
        addItem_def ensureCanModify_def maxItems_def)

text \<open>
  Claim C6: a failing operation leaves the order exactly as it was. The code breaks this
  when the recomputation of the total throws: the line has been pushed (or the quantity
  changed, or the line removed) before \<open>recalculateTotal\<close> runs. On the new order,
  \<open>addItem\<close> of one unit at 5 US dollars fails with \<open>CurrencyMismatch\<close> and the order,
  empty before the call, holds a line after it.
\<close>

theorem failed_addItem_keeps_pushed_line:
  "Money_new 5 ''USD'' = Inr (usd 5) \<and>
   addItem P1 1 (usd 5) fresh =
     (Thrown CurrencyMismatch,
      fresh\<lparr>items := [\<lparr>productId = P1, quantity = 1, unitPrice = usd 5\<rparr>]\<rparr>) \<and>
   snd (addItem P1 1 (usd 5) fresh) \<noteq> fresh"
  by code_simp

text \<open>
  Claim C7, as amended. \<open>add\<close> and \<open>subtract\<close> of two Money values whose currency codes
  differ fail with \<open>CurrencyMismatch\<close>. \<open>multiply\<close> takes a number, compares no
  currencies, and never fails with \<open>CurrencyMismatch\<close>.
\<close>

theorem currency_mismatch_of_add_and_subtract:
  "(currency a \<noteq> currency b \<longrightarrow>
      Money_add a b = Inl CurrencyMismatch \<and> Money_subtract a b = Inl CurrencyMismatch) \<and>
   Money_multiply a k \<noteq> Inl CurrencyMismatch"
  by (simp add: Money_add_def Money_subtract_def Money_multiply_def assertSameCurrency_def
        Money_new_def)

text \<open>The amended C7 at five dollars and three yen.\<close>

theorem currency_mismatch_of_add_and_subtract_witness:
  "currency (usd 5) \<noteq> currency (yen 3) \<and>
   Money_add (usd 5) (yen 3) = Inl CurrencyMismatch \<and>
   Money_subtract (usd 5) (yen 3) = Inl CurrencyMismatch \<and>
   Money_multiply (usd 5) 3 \<noteq> Inl CurrencyMismatch"
  using currency_mismatch_of_add_and_subtract [of "usd 5" "yen 3" 3] by simp

text \<open>
  C7 as it is written fails for \<open>multiply\<close>: its argument is a number, so a second Money
  value enters only through its amount, and five dollars times the amount of three yen is
  fifteen dollars, not an error.
\<close>

theorem multiply_ignores_currency:
  "currency (usd 5) \<noteq> currency (yen 3) \<and>
   Money_multiply (usd 5) (amount (yen 3)) = Inr (usd 15)"
  by code_simp

text \<open>
  Claim C8, as amended. In every state reached from a newly created order by any sequence
  of calls of the public operations, an order whose status is \<open>PLACED\<close>, \<open>PAID\<close>,
  \<open>SHIPPED\<close> or \<open>DELIVERED\<close> holds at least one line. (A cancelled order may hold none.)
\<close>

theorem placed_order_has_a_line:
  "Order_new i c = Inr ord \<Longrightarrow> status (run ops ord) \<in> {PLACED, PAID, SHIPPED, DELIVERED} \<Longrightarrow>
     items (run ops ord) \<noteq> []"
proof -
  assume n: "Order_new i c = Inr ord"
    and s: "status (run ops ord) \<in> {PLACED, PAID, SHIPPED, DELIVERED}"
  from n have "placedHasItems ord" by (auto simp: Order_new_eq placedHasItems_def)
  then have "placedHasItems (run ops ord)" by (rule placedHasItems_run)
  with s show ?thesis by (simp add: placedHasItems_def)
qed

text \<open>The amended C8 on the order placed and paid after one \<open>addItem\<close>.\<close>

theorem placed_order_has_a_line_witness:
  "Order_new (OrderId ''O1'') (CustomerId ''C1'') = Inr fresh \<and>
   status (run [AddItem P1 2 (yen 1000), Place 7, MarkAsPaid] fresh)
     \<in> {PLACED, PAID, SHIPPED, DELIVERED} \<and>
   items (run [AddItem P1 2 (yen 1000), Place 7, MarkAsPaid] fresh) \<noteq> []"
proof -
  have n: "Order_new (OrderId ''O1'') (CustomerId ''C1'') = Inr fresh"
    by (simp add: Order_new_eq)
  have s: "status (run [AddItem P1 2 (yen 1000), Place 7, MarkAsPaid] fresh)
             \<in> {PLACED, PAID, SHIPPED, DELIVERED}"
    by code_simp
  show ?thesis using n s placed_order_has_a_line [OF n s] by simp
qed

text \<open>
  C8 as it is written fails: \<open>cancel\<close> accepts a draft without looking at its lines, so
  the new order, cancelled at once, has left the draft state and holds no line.
\<close>

theorem cancelled_order_without_lines:
  "Order_new (OrderId ''O1'') (CustomerId ''C1'') = Inr fresh \<and>
   status (run [Cancel] fresh) \<noteq> DRAFT \<and> items (run [Cancel] fresh) = []"
  by code_simp

text \<open>
  Claim C9. Whatever the repository holds, \<open>save\<close> of an order followed by \<open>findById\<close>
  with that order's identifier returns a present result, the saved order, which \<open>equals\<close>
  the order by identifier.
\<close>

theorem save_then_findById:
  "findById (getId ord) (save ord orders) = Some ord \<and>
   (\<exists>found. findById (getId ord) (save ord orders) = Some found \<and> Order_equals found ord)"
  by (simp add: findById_def save_def Order_equals_def OrderId_equals_def)

text \<open>
  Claim C10, as amended. \<open>addItem\<close> on a draft order that already holds 100 lines fails
  and leaves the order unchanged, whether or not the product matches an existing line:
  the cap is tested before the lines are searched, so a merge fails at the limit too. In
  every state reached from a newly created order the lines number at most 100 and no two
  of them have the same product.
\<close>

theorem line_cap_before_merge:
  "(status ord = DRAFT \<and> maxItems \<le> length (items ord) \<longrightarrow>
      addItem p q u ord = (Thrown MaxItemsExceeded, ord)) \<and>
   (Order_new i c = Inr ord \<longrightarrow>
      length (items (run ops ord)) \<le> 100 \<and> distinct (map productId (items (run ops ord))))"
proof -
  have a: "status ord = DRAFT \<and> maxItems \<le> length (items ord) \<longrightarrow>
      addItem p q u ord = (Thrown MaxItemsExceeded, ord)"
    by (simp add: addItem_def ensureCanModify_def)
  have b: "length (items (run ops ord)) \<le> 100 \<and> distinct (map productId (items (run ops ord)))"
    if "Order_new i c = Inr ord"
  proof -
    from that have "withinCap ord" by (auto simp: Order_new_eq withinCap_def)
    then have "withinCap (run ops ord)" by (rule withinCap_run)
    then show ?thesis by (simp add: withinCap_def maxItems_def)
  qed
  from a b show ?thesis by blast
qed

text \<open>
  The amended C10 on the order of one hundred lines: a further product is refused, and
  the run of the hundred calls followed by that one ends with at most 100 lines of
  different products.
\<close>

theorem line_cap_before_merge_witness:
  "addItem P1 1 (yen 10) fullOrder = (Thrown MaxItemsExceeded, fullOrder) \<and>
   length (items (run (hundredAdds @ [AddItem P1 1 (yen 10)]) fresh)) \<le> 100 \<and>
   distinct (map productId (items (run (hundredAdds @ [AddItem P1 1 (yen 10)]) fresh)))"
proof -
  have n: "Order_new (OrderId ''O1'') (CustomerId ''C1'') = Inr fresh"
    by (simp add: Order_new_eq)
  have f: "status fullOrder = DRAFT \<and> maxItems \<le> length (items fullOrder)"
    by (simp add: fullOrder_facts maxItems_def)
  show ?thesis
    using n f
      line_cap_before_merge [of fullOrder P1 1 "yen 10"]
      line_cap_before_merge [of fresh _ _ _ "OrderId ''O1''" "CustomerId ''C1''"
        "hundredAdds @ [AddItem P1 1 (yen 10)]"]
    by simp
qed

text \<open>
  C10 as it is written fails in its second half: on the order of one hundred lines,
  \<open>addItem\<close> with the product of line 0 would merge, and it is refused like any other.
\<close>

theorem merge_at_cap_is_rejected:
  "run hundredAdds fresh = fullOrder \<and>
   status fullOrder = DRAFT \<and> length (items fullOrder) = 100 \<and>
   hasProduct (items fullOrder ! 0) (lineProduct 0) \<and>
   addItem (lineProduct 0) 1 (yen 10) fullOrder = (Thrown MaxItemsExceeded, fullOrder)"
  by (simp add: run_hundredAdds fullOrder_facts fullOrder_line hasProduct_iff tenYenLine_def
        addItem_def ensureCanModify_def maxItems_def)

end
